theory Spec2Isabelle
  imports
    Complex_Main
    "HOL-Library.Word"
    "HOL-Library.AList"
    "HOL-Library.Sublist"
    "HOL-Library.Char_ord"
    "HOL-Library.List_Lexorder"
begin

section \<open>Tensors\<close>

text \<open>
  The element types of the array library used by \<^verbatim>\<open>quantize_openelm.py\<close>. The
  quantizer distinguishes only the three floating types from the rest and produces
  8-bit signed integers.
\<close>

datatype dtype =
    Bool | UInt8 | UInt16 | UInt32 | UInt64
  | Int8 | Int16 | Int32 | Int64
  | Float16 | Float32 | BFloat16 | Complex64

fun itemsize :: "dtype \<Rightarrow> nat" where
  "itemsize Bool = 1"
| "itemsize UInt8 = 1"
| "itemsize UInt16 = 2"
| "itemsize UInt32 = 4"
| "itemsize UInt64 = 8"
| "itemsize Int8 = 1"
| "itemsize Int16 = 2"
| "itemsize Int32 = 4"
| "itemsize Int64 = 8"
| "itemsize Float16 = 2"
| "itemsize Float32 = 4"
| "itemsize BFloat16 = 2"
| "itemsize Complex64 = 8"

text \<open>
  A tensor is its element type, its shape and its elements in row-major order. The
  elements of an input tensor are finite numbers; arithmetic on them is exact, that is,
  the rounding of the 16- and 32-bit formats is not part of this model. The values of an
  8-bit tensor are the integers read from its bytes.
\<close>

record tensor =
  dtype :: dtype
  shape :: "nat list"
  elems :: "real list"

definition nbytes :: "tensor \<Rightarrow> nat" where
  "nbytes t = itemsize (dtype t) * length (elems t)"

definition scalar :: "dtype \<Rightarrow> real \<Rightarrow> tensor" where
  "scalar d x = \<lparr>dtype = d, shape = [], elems = [x]\<rparr>"

text \<open>The test of line 78: a floating element type and at least two dimensions.\<close>

definition quantizable :: "tensor \<Rightarrow> bool" where
  "quantizable weight \<longleftrightarrow>
     dtype weight \<in> set [Float32, Float16, BFloat16] \<and> length (shape weight) \<ge> 2"

section \<open>Exceptions\<close>

datatype exn =
    LoadFailure string
  | EmptyReduce
  | ZeroDivisionError
  | SaveFailure string
  | StatFailure string

section \<open>The arithmetic of the quantization step\<close>

text \<open>
  The result of a floating-point division is a finite number, an infinity or NaN:
  dividing by zero raises nothing in the array library.
\<close>

datatype fl = Fin real | PInf | NInf | NaN

definition fdiv :: "real \<Rightarrow> real \<Rightarrow> fl" where
  "fdiv x y =
     (if y \<noteq> 0 then Fin (x / y)
      else if x > 0 then PInf
      else if x < 0 then NInf
      else NaN)"

text \<open>\<^verbatim>\<open>mx.clip(a, lo, hi)\<close>: the minimum with \<open>hi\<close> of the maximum with \<open>lo\<close>; NaN stays NaN.\<close>

fun clip :: "fl \<Rightarrow> real \<Rightarrow> real \<Rightarrow> fl" where
  "clip (Fin x) lo hi = Fin (min (max x lo) hi)"
| "clip PInf lo hi = Fin hi"
| "clip NInf lo hi = Fin (min lo hi)"
| "clip NaN lo hi = NaN"

fun fsub :: "fl \<Rightarrow> real \<Rightarrow> fl" where
  "fsub (Fin x) c = Fin (x - c)"
| "fsub v c = v"

text \<open>Conversion of a float to an integer drops the fractional part.\<close>

definition trunc_toward_zero :: "real \<Rightarrow> int" where
  "trunc_toward_zero x = (if x < 0 then \<lceil>x\<rceil> else \<lfloor>x\<rfloor>)"

text \<open>
  \<^verbatim>\<open>astype(mx.int8)\<close>. The conversion of a value that is not finite is not defined by
  the language the library is written in; what it yields is the parameter \<open>nonfinite\<close>.
  A finite value outside the 8-bit range is reduced modulo 256.
\<close>

fun astype_int8 :: "(fl \<Rightarrow> 8 word) \<Rightarrow> fl \<Rightarrow> 8 word" where
  "astype_int8 nonfinite (Fin x) = word_of_int (trunc_toward_zero x)"
| "astype_int8 nonfinite v = nonfinite v"

text \<open>\<^verbatim>\<open>mx.min\<close> and \<^verbatim>\<open>mx.max\<close> over all elements; both refuse a tensor with no element.\<close>

definition mx_min :: "tensor \<Rightarrow> exn + real" where
  "mx_min t = (if elems t = [] then Inl EmptyReduce else Inr (Min (set (elems t))))"

definition mx_max :: "tensor \<Rightarrow> exn + real" where
  "mx_max t = (if elems t = [] then Inl EmptyReduce else Inr (Max (set (elems t))))"

text \<open>Lines 83 to 89, for given minimum and maximum.\<close>

definition scale_of :: "real \<Rightarrow> real \<Rightarrow> real" where
  "scale_of weight_min weight_max = (weight_max - weight_min) / 255"

definition quantized_float :: "real \<Rightarrow> real \<Rightarrow> real \<Rightarrow> fl" where
  "quantized_float zero_point scale w = fdiv (w - zero_point) scale"

definition shifted :: "fl \<Rightarrow> fl" where
  "shifted q = fsub (clip q 0 255) 128"

definition quantize_elem :: "(fl \<Rightarrow> 8 word) \<Rightarrow> real \<Rightarrow> real \<Rightarrow> real \<Rightarrow> 8 word" where
  "quantize_elem nonfinite zero_point scale w =
     astype_int8 nonfinite (shifted (quantized_float zero_point scale w))"

text \<open>
  Lines 81 to 94 for one tensor: the 8-bit tensor, the scale and the zero point. The two
  scalars have the element type of the weight.
\<close>

definition quantize_tensor :: "(fl \<Rightarrow> 8 word) \<Rightarrow> tensor \<Rightarrow> exn + (tensor \<times> tensor \<times> tensor)" where
  "quantize_tensor nonfinite weight =
     (case mx_min weight of
        Inl e \<Rightarrow> Inl e
      | Inr weight_min \<Rightarrow>
          (case mx_max weight of
             Inl e \<Rightarrow> Inl e
           | Inr weight_max \<Rightarrow>
               (let scale = scale_of weight_min weight_max;
                    zero_point = weight_min;
                    quantized_int8 =
                      \<lparr>dtype = Int8, shape = shape weight,
                       elems = map (\<lambda>w. real_of_int (sint (quantize_elem nonfinite zero_point scale w)))
                                 (elems weight)\<rparr>
                in Inr (quantized_int8,
                        scalar (dtype weight) scale,
                        scalar (dtype weight) zero_point))))"


section \<open>Dictionaries\<close>

text \<open>
  A Python dictionary keeps its keys in the order of their first insertion; assigning to
  a key that is present replaces the value in place.
\<close>

type_synonym 'v dict = "(string \<times> 'v) list"

definition dict_set :: "'v dict \<Rightarrow> string \<Rightarrow> 'v \<Rightarrow> 'v dict" where
  "dict_set d k v = AList.update k v d"

definition dict_get :: "'v dict \<Rightarrow> string \<Rightarrow> 'v option" where
  "dict_get d k = map_of d k"

section \<open>The world of the quantizer\<close>

text \<open>
  A file holds a tensor container or something the loader rejects. The world is the file
  system, the size the file system reports for a file, whether the next save fails (with
  its cause and what it leaves at the output path), and the trace of what the script has
  printed, loaded and saved so far.
\<close>

datatype stored = Safetensors "tensor dict" | Unreadable string

text \<open>
  What the script prints, by message and payload; sizes are carried in bytes where the
  script formats megabytes.
\<close>

datatype msg =
    MsgStart
  | MsgModelDir string
  | MsgNotFound string
  | MsgLoading string
  | MsgLoaded nat nat
  | MsgQuantizing
  | MsgDataTypes "(dtype \<times> nat) list"
  | MsgDimensions "(nat \<times> nat) list"
  | MsgTensor string "nat list" dtype nat nat
  | MsgQuantized nat
  | MsgSizeReduction nat nat
  | MsgSaving string
  | MsgSaved
  | MsgFileSize nat
  | MsgSavings nat nat
  | MsgSaveError exn
  | MsgBanner
  | MsgRule
  | MsgCompleted
  | MsgFailed

datatype event = Print msg | Load string | Save string | Stat string

record world =
  files :: "string \<rightharpoonup> stored"
  st_size :: "stored \<Rightarrow> nat"
  save_fault :: "(string \<times> stored option) option"
  trace :: "event list"

definition emit :: "event \<Rightarrow> world \<Rightarrow> world" where
  "emit e w = w\<lparr>trace := trace w @ [e]\<rparr>"

definition py_print :: "msg \<Rightarrow> world \<Rightarrow> world" where
  "py_print m w = emit (Print m) w"

definition path_exists :: "world \<Rightarrow> string \<Rightarrow> bool" where
  "path_exists w p \<longleftrightarrow> files w p \<noteq> None"

definition mx_load :: "string \<Rightarrow> world \<Rightarrow> (exn + tensor dict) \<times> world" where
  "mx_load p w =
     (case files w p of
        Some (Safetensors d) \<Rightarrow> (Inr d, emit (Load p) w)
      | Some (Unreadable why) \<Rightarrow> (Inl (LoadFailure why), emit (Load p) w)
      | None \<Rightarrow> (Inl (LoadFailure p), emit (Load p) w))"

definition mx_save_safetensors :: "string \<Rightarrow> tensor dict \<Rightarrow> world \<Rightarrow> (exn + unit) \<times> world" where
  "mx_save_safetensors p d w =
     (case save_fault w of
        Some (cause, residue) \<Rightarrow>
          (Inl (SaveFailure cause), emit (Save p) (w\<lparr>files := (files w)(p := residue)\<rparr>))
      | None \<Rightarrow>
          (Inr (), emit (Save p) (w\<lparr>files := (files w)(p \<mapsto> Safetensors d)\<rparr>)))"

definition stat :: "string \<Rightarrow> world \<Rightarrow> (exn + nat) \<times> world" where
  "stat p w =
     (case files w p of
        None \<Rightarrow> (Inl (StatFailure p), emit (Stat p) w)
      | Some f \<Rightarrow> (Inr (st_size w f), emit (Stat p) w))"

section \<open>The quantizer\<close>

definition model_dir :: string where
  "model_dir = ''KickbackApp/Resources/Models''"

definition model_files :: "string list" where
  "model_files = [''model-00001-of-00002.safetensors'', ''model-00002-of-00002.safetensors'']"

definition path_join :: "string \<Rightarrow> string \<Rightarrow> string" where
  "path_join d f = d @ ''/'' @ f"

definition output_path :: string where
  "output_path = path_join model_dir ''model-q8_0.safetensors''"

text \<open>Lines 35 to 39: the first missing file is reported and ends the check.\<close>

fun check_files :: "string list \<Rightarrow> world \<Rightarrow> bool \<times> world" where
  "check_files [] w = (True, w)"
| "check_files (file # rest) w =
     (let file_path = path_join model_dir file
      in if \<not> path_exists w file_path
         then (False, py_print (MsgNotFound file_path) w)
         else check_files rest w)"

text \<open>Lines 51 to 56: every tensor of a shard is stored under its name and counted.\<close>

fun load_items :: "(string \<times> tensor) list \<Rightarrow> tensor dict \<times> nat \<Rightarrow> tensor dict \<times> nat" where
  "load_items [] st = st"
| "load_items ((key, t) # rest) (all_weights, total_size) =
     load_items rest (dict_set all_weights key t, total_size + nbytes t)"

text \<open>Lines 45 to 56.\<close>

fun load_files :: "string list \<Rightarrow> tensor dict \<times> nat \<Rightarrow> world \<Rightarrow> (exn + tensor dict \<times> nat) \<times> world" where
  "load_files [] st w = (Inr st, w)"
| "load_files (file # rest) st w =
     (let file_path = path_join model_dir file;
          w1 = py_print (MsgLoading file) w
      in case mx_load file_path w1 of
           (Inl e, w2) \<Rightarrow> (Inl e, w2)
         | (Inr weights, w2) \<Rightarrow> load_files rest (load_items weights st) w2)"

text \<open>Lines 67 to 72: the two tables printed before the quantization.\<close>

definition bump :: "('k \<times> nat) list \<Rightarrow> 'k \<Rightarrow> ('k \<times> nat) list" where
  "bump counts k = AList.update k ((case map_of counts k of None \<Rightarrow> 0 | Some c \<Rightarrow> c) + 1) counts"

definition dtype_counts :: "tensor dict \<Rightarrow> (dtype \<times> nat) list" where
  "dtype_counts all_weights = fold (\<lambda>(key, weight) counts. bump counts (dtype weight)) all_weights []"

definition shape_counts :: "tensor dict \<Rightarrow> (nat \<times> nat) list" where
  "shape_counts all_weights =
     fold (\<lambda>(key, weight) counts. bump counts (length (shape weight))) all_weights []"

text \<open>The state of the loop of lines 77 to 106.\<close>

record qstate =
  quantized_weights :: "tensor dict"
  quantized_size :: nat

definition is_sidecar :: "string \<Rightarrow> bool" where
  "is_sidecar k \<longleftrightarrow> suffix ''.scale'' k \<or> suffix ''.zero_point'' k"

text \<open>One iteration of the loop of lines 77 to 106.\<close>

definition quantize_entry ::
  "(fl \<Rightarrow> 8 word) \<Rightarrow> string \<Rightarrow> tensor \<Rightarrow> qstate \<Rightarrow> world \<Rightarrow> (exn + qstate) \<times> world" where
  "quantize_entry nonfinite key weight qs w =
     (if quantizable weight then
        (case quantize_tensor nonfinite weight of
           Inl e \<Rightarrow> (Inl e, w)
         | Inr (quantized_int8, scale, zero_point) \<Rightarrow>
             (let qw1 = dict_set (quantized_weights qs) key quantized_int8;
                  qw2 = dict_set qw1 (key @ ''.scale'') scale;
                  qw3 = dict_set qw2 (key @ ''.zero_point'') zero_point;
                  original_bytes = nbytes weight;
                  quantized_bytes = nbytes quantized_int8 + nbytes scale + nbytes zero_point;
                  qs' = \<lparr>quantized_weights = qw3,
                         quantized_size = quantized_size qs + quantized_bytes\<rparr>
              in if length (filter (\<lambda>k. \<not> is_sidecar k) (map fst qw3)) \<le> 5
                 then (Inr qs',
                       py_print (MsgTensor key (shape weight) (dtype weight)
                                   (original_bytes div 1024) (quantized_bytes div 1024)) w)
                 else (Inr qs', w)))
      else
        (Inr \<lparr>quantized_weights = dict_set (quantized_weights qs) key weight,
              quantized_size = quantized_size qs + nbytes weight\<rparr>, w))"

fun quantize_loop ::
  "(fl \<Rightarrow> 8 word) \<Rightarrow> (string \<times> tensor) list \<Rightarrow> qstate \<Rightarrow> world \<Rightarrow> (exn + qstate) \<times> world" where
  "quantize_loop nonfinite [] qs w = (Inr qs, w)"
| "quantize_loop nonfinite ((key, weight) # rest) qs w =
     (case quantize_entry nonfinite key weight qs w of
        (Inl e, w1) \<Rightarrow> (Inl e, w1)
      | (Inr qs1, w1) \<Rightarrow> quantize_loop nonfinite rest qs1 w1)"

text \<open>
  Lines 115 to 128: the guarded save. Every exception raised inside is caught and
  reported, and the function returns \<open>False\<close>.
\<close>

definition save_step :: "tensor dict \<Rightarrow> nat \<Rightarrow> world \<Rightarrow> (exn + bool) \<times> world" where
  "save_step qw total_size w =
     (case mx_save_safetensors output_path qw w of
        (Inl e, w1) \<Rightarrow> (Inr False, py_print (MsgSaveError e) w1)
      | (Inr u, w1) \<Rightarrow>
          (case stat output_path w1 of
             (Inl e, w2) \<Rightarrow> (Inr False, py_print (MsgSaveError e) w2)
           | (Inr actual_size, w2) \<Rightarrow>
               (let w3 = py_print MsgSaved w2;
                    w4 = py_print (MsgFileSize actual_size) w3
                in if total_size = 0
                   then (Inr False, py_print (MsgSaveError ZeroDivisionError) w4)
                   else (Inr True, py_print (MsgSavings total_size actual_size) w4))))"

text \<open>Lines 61 to 113: from the loaded weights to the point where the save begins.\<close>

definition quantize_stage ::
  "(fl \<Rightarrow> 8 word) \<Rightarrow> tensor dict \<Rightarrow> nat \<Rightarrow> world \<Rightarrow> (exn + tensor dict) \<times> world" where
  "quantize_stage nonfinite all_weights total_size w =
     (let w1 = py_print MsgQuantizing w;
          w2 = py_print (MsgDataTypes (dtype_counts all_weights)) w1;
          w3 = py_print (MsgDimensions (shape_counts all_weights)) w2
      in case quantize_loop nonfinite all_weights
                \<lparr>quantized_weights = [], quantized_size = 0\<rparr> w3 of
           (Inl e, w4) \<Rightarrow> (Inl e, w4)
         | (Inr qs, w4) \<Rightarrow>
             (let w5 = py_print (MsgQuantized (length (quantized_weights qs))) w4
              in if total_size = 0 then (Inl ZeroDivisionError, w5)
                 else (Inr (quantized_weights qs),
                       py_print (MsgSaving output_path)
                         (py_print (MsgSizeReduction total_size (quantized_size qs)) w5))))"

definition quantize_openelm_model :: "(fl \<Rightarrow> 8 word) \<Rightarrow> world \<Rightarrow> (exn + bool) \<times> world" where
  "quantize_openelm_model nonfinite w =
     (let w1 = py_print (MsgModelDir model_dir) (py_print MsgStart w)
      in case check_files model_files w1 of
           (False, w2) \<Rightarrow> (Inr False, w2)
         | (True, w2) \<Rightarrow>
             (case load_files model_files ([], 0) w2 of
                (Inl e, w3) \<Rightarrow> (Inl e, w3)
              | (Inr (all_weights, total_size), w3) \<Rightarrow>
                  (let w4 = py_print (MsgLoaded (length all_weights) total_size) w3
                   in case quantize_stage nonfinite all_weights total_size w4 of
                        (Inl e, w5) \<Rightarrow> (Inl e, w5)
                      | (Inr qw, w5) \<Rightarrow> save_step qw total_size w5)))"

text \<open>
  \<^verbatim>\<open>main\<close>: it returns, leaves through \<^verbatim>\<open>sys.exit\<close>, or an exception of the
  quantizer passes through it. The exit status is that of the interpreter.
\<close>

datatype outcome = Returned | Exit nat | Uncaught exn

definition main :: "(fl \<Rightarrow> 8 word) \<Rightarrow> world \<Rightarrow> outcome \<times> world" where
  "main nonfinite w =
     (let w1 = py_print MsgRule (py_print MsgBanner w)
      in case quantize_openelm_model nonfinite w1 of
           (Inl e, w2) \<Rightarrow> (Uncaught e, w2)
         | (Inr True, w2) \<Rightarrow> (Returned, py_print MsgCompleted w2)
         | (Inr False, w2) \<Rightarrow> (Exit 1, py_print MsgFailed w2))"

fun exit_status :: "outcome \<Rightarrow> nat" where
  "exit_status Returned = 0"
| "exit_status (Exit n) = n"
| "exit_status (Uncaught e) = 1"

section \<open>The weight index inspector\<close>

text \<open>
  Parameter names are ASCII strings: \<^verbatim>\<open>lower\<close> maps the letters A to Z to a to z,
  and \<^verbatim>\<open>sorted\<close> compares strings character by character.
\<close>

definition lower_char :: "char \<Rightarrow> char" where
  "lower_char c =
     (if CHR ''A'' \<le> c \<and> c \<le> CHR ''Z'' then char_of (of_char c + (32::nat)) else c)"

definition lower :: "string \<Rightarrow> string" where
  "lower s = map lower_char s"

text \<open>The operator \<^verbatim>\<open>in\<close> on strings: some suffix of \<open>s\<close> starts with \<open>sub\<close>.\<close>

fun str_in :: "string \<Rightarrow> string \<Rightarrow> bool" where
  "str_in sub [] = (sub = [])"
| "str_in sub (c # cs) = (prefix sub (c # cs) \<or> str_in sub cs)"

text \<open>The decimal digits of a number, as an f-string writes it.\<close>

fun show_nat :: "nat \<Rightarrow> string" where
  "show_nat n =
     (if n < 10 then [char_of (48 + n)]
      else show_nat (n div 10) @ [char_of (48 + n mod 10)])"

declare show_nat.simps [simp del]

text \<open>The contents of a JSON file once parsed; an object keeps its keys in order.\<close>

datatype json =
    JNull | JBool bool | JNum real | JStr string
  | JArr "json list" | JObj "(string \<times> json) list"

datatype parsed = NotJSON | Parsed json

datatype inspect_exn = JSONDecodeError | AttributeError

text \<open>
  What the inspector reads: the index file (absent, or its contents) and the listing of
  the models directory (absent, or the names in it).
\<close>

record inspect_env =
  index_file :: "parsed option"
  models_listing :: "string list option"

definition newline :: string where
  "newline = [CHR 0x0A]"

definition item :: "string \<Rightarrow> string" where
  "item weight = ''  '' @ weight"

text \<open>The list comprehension of lines 19, 25, 31 and 37.\<close>

definition matching :: "string \<Rightarrow> string list \<Rightarrow> string list" where
  "matching label keys = filter (\<lambda>k. str_in label (lower k)) keys"

text \<open>Lines 19 to 42, for the keys of the weight map; one string for each \<^verbatim>\<open>print\<close>.\<close>

definition index_listing :: "string list \<Rightarrow> string list" where
  "index_listing keys =
     (let embedding_weights = matching ''embed'' keys;
          token_weights = matching ''token'' keys;
          norm_weights = matching ''norm'' keys;
          transformer_weights = matching ''transformer'' keys
      in [newline @ ''Embedding weights ('' @ show_nat (length embedding_weights) @ ''):'']
         @ map item (sort embedding_weights)
         @ [newline @ ''Token weights ('' @ show_nat (length token_weights) @ ''):'']
         @ map item (sort token_weights)
         @ [newline @ ''Norm weights (first 10):'']
         @ map item (take 10 (sort norm_weights))
         @ [newline @ ''Transformer weights (first 10):'']
         @ map item (take 10 (sort transformer_weights))
         @ [newline @ ''Total weights: '' @ show_nat (length keys)])"

text \<open>
  \<^verbatim>\<open>index_data.get('weight_map', {})\<close> followed by \<^verbatim>\<open>.keys()\<close>: both need an
  object.
\<close>

definition weight_map_keys :: "json \<Rightarrow> inspect_exn + string list" where
  "weight_map_keys index_data =
     (case index_data of
        JObj members \<Rightarrow>
          (case map_of members ''weight_map'' of
             None \<Rightarrow> Inr []
           | Some (JObj weight_map) \<Rightarrow> Inr (map fst weight_map)
           | Some other \<Rightarrow> Inl AttributeError)
      | other \<Rightarrow> Inl AttributeError)"

definition py_repr :: "string list \<Rightarrow> string" where
  "py_repr xs =
     ''['' @ concat (map (\<lambda>(i, x). (if i = 0 then [] else '', '') @ [CHR 0x27] @ x @ [CHR 0x27])
                      (enumerate 0 xs)) @ '']''"

definition index_path :: string where
  "index_path = ''KickbackApp/Resources/Models/model.safetensors.index.json''"

definition models_dir :: string where
  "models_dir = ''KickbackApp/Resources/Models''"

text \<open>The script: what it prints, and the exception that ends it, if any.\<close>

definition inspect_weights :: "inspect_env \<Rightarrow> (inspect_exn + unit) \<times> string list" where
  "inspect_weights env =
     (case index_file env of
        Some NotJSON \<Rightarrow> (Inl JSONDecodeError, [])
      | Some (Parsed index_data) \<Rightarrow>
          (let out = [''Available weights in the model:'', replicate 50 CHR ''='']
           in case weight_map_keys index_data of
                Inl e \<Rightarrow> (Inl e, out)
              | Inr keys \<Rightarrow> (Inr (), out @ index_listing keys))
      | None \<Rightarrow>
          (let out = [''Index file not found at '' @ index_path,
                      ''Looking for safetensors files...'']
           in case models_listing env of
                Some names \<Rightarrow>
                  (Inr (), out @ [''Found safetensors files: ''
                                   @ py_repr (filter (suffix ''.safetensors'') names)])
              | None \<Rightarrow> (Inr (), out @ [''Models directory not found at '' @ models_dir])))"

section \<open>Specification-level notions and example inputs\<close>



definition example_weight :: tensor where
  "example_weight = \<lparr>dtype = Float32, shape = [2, 2], elems = [0, 1 / 4, 255, 1]\<rparr>"

definition empty_world :: world where
  "empty_world = \<lparr>files = Map.empty, st_size = (\<lambda>f. 0), save_fault = None, trace = []\<rparr>"

definition empty_qstate :: qstate where
  "empty_qstate = \<lparr>quantized_weights = [], quantized_size = 0\<rparr>"

definition constant_weight :: tensor where
  "constant_weight = \<lparr>dtype = Float16, shape = [2, 3], elems = [1 / 2, 1 / 2, 1 / 2, 1 / 2, 1 / 2, 1 / 2]\<rparr>"

text \<open>
  A stage that only prints and loads: the world changes in its trace alone, by events
  that are no save.
\<close>

definition appends :: "world \<Rightarrow> world \<Rightarrow> bool" where
  "appends w w' \<longleftrightarrow> (\<exists>es. w' = w\<lparr>trace := trace w @ es\<rparr> \<and> (\<forall>p. Save p \<notin> set es))"

definition bias :: tensor where
  "bias = \<lparr>dtype = Float32, shape = [2], elems = [3, 4]\<rparr>"

text \<open>A world with both shard files; the name \<open>a\<close> occurs in both.\<close>

definition two_shards :: world where
  "two_shards =
     \<lparr>files = [path_join model_dir (model_files ! 0) \<mapsto> Safetensors [(''a'', bias), (''b'', bias)],
               path_join model_dir (model_files ! 1) \<mapsto> Safetensors [(''a'', example_weight)]],
      st_size = (\<lambda>f. 100), save_fault = None, trace = []\<rparr>"

text \<open>The same world with a disk that fails at the save.\<close>

definition failing_disk :: world where
  "failing_disk = two_shards\<lparr>save_fault := Some (''No space left on device'', None)\<rparr>"

text \<open>A world where the second shard file is missing.\<close>

definition one_shard :: world where
  "one_shard =
     \<lparr>files = [path_join model_dir (model_files ! 0) \<mapsto> Safetensors [(''a'', example_weight)]],
      st_size = (\<lambda>f. 100), save_fault = None, trace = []\<rparr>"

text \<open>
  Two worlds where a tensor carries the name of a side-car entry: \<open>a.scale\<close> in the first
  shard and \<open>a\<close> in the second, and the other way round.
\<close>

definition sidecar_first :: world where
  "sidecar_first =
     \<lparr>files = [path_join model_dir (model_files ! 0) \<mapsto> Safetensors [(''a.scale'', bias)],
               path_join model_dir (model_files ! 1) \<mapsto> Safetensors [(''a'', example_weight)]],
      st_size = (\<lambda>f. 100), save_fault = None, trace = []\<rparr>"

definition sidecar_second :: world where
  "sidecar_second =
     \<lparr>files = [path_join model_dir (model_files ! 0) \<mapsto> Safetensors [(''a'', example_weight)],
               path_join model_dir (model_files ! 1) \<mapsto> Safetensors [(''a.scale'', bias)]],
      st_size = (\<lambda>f. 100), save_fault = None, trace = []\<rparr>"

text \<open>The tensor stored under a name in the file the quantizer has written.\<close>

definition written :: "world \<Rightarrow> string \<Rightarrow> tensor option" where
  "written w k =
     (case files w output_path of
        Some (Safetensors out) \<Rightarrow> dict_get out k
      | Some (Unreadable why) \<Rightarrow> None
      | None \<Rightarrow> None)"

text \<open>The names one iteration of the loop assigns to.\<close>

definition written_keys :: "string \<Rightarrow> tensor \<Rightarrow> string list" where
  "written_keys key weight =
     (if quantizable weight then [key, key @ ''.scale'', key @ ''.zero_point''] else [key])"

text \<open>The keys of a category, in the words of the specification.\<close>

definition category :: "string \<Rightarrow> string set \<Rightarrow> string set" where
  "category label keys = {k \<in> keys. sublist label (lower k)}"

text \<open>An index file whose weight map has the given keys.\<close>

definition index_of :: "string list \<Rightarrow> inspect_env" where
  "index_of keys =
     \<lparr>index_file = Some (Parsed (JObj [(''metadata'', JNull),
                                        (''weight_map'', JObj (map (\<lambda>k. (k, JStr ''shard'')) keys))])),
      models_listing = None\<rparr>"

definition eleven_norms :: "string list" where
  "eleven_norms =
     [''l.norm.a'', ''l.norm.b'', ''l.norm.c'', ''l.norm.d'', ''l.norm.e'', ''l.norm.f'',
      ''l.norm.g'', ''l.norm.h'', ''l.norm.i'', ''l.norm.j'', ''l.norm.k'']"

definition ten_norms :: "string list" where
  "ten_norms =
     [''l.norm.a'', ''l.norm.b'', ''l.norm.c'', ''l.norm.d'', ''l.norm.e'', ''l.norm.f'',
      ''l.norm.g'', ''l.norm.h'', ''l.norm.i'', ''l.norm.j'', ''l.bias'']"

definition scenario_keys :: "string list" where
  "scenario_keys =
     [''model.embed.weight'', ''model.norm.weight'', ''model.layer.0.transformer.attn.weight'']"

section \<open>Properties\<close>

lemma dict_get_set: "dict_get (dict_set d k v) k' = (if k' = k then Some v else dict_get d k')"
  by (simp add: dict_get_def dict_set_def update_conv')




lemma mx_min_Inr: "mx_min t = Inr m \<longleftrightarrow> elems t \<noteq> [] \<and> m = Min (set (elems t))"
  by (auto simp: mx_min_def)

lemma mx_max_Inr: "mx_max t = Inr m \<longleftrightarrow> elems t \<noteq> [] \<and> m = Max (set (elems t))"
  by (auto simp: mx_max_def)





lemma quantize_entry_quantizable:
  assumes "quantizable weight" and "quantize_tensor nonfinite weight = Inr (q, s, z)"
  shows "\<exists>qs'. fst (quantize_entry nonfinite key weight qs world) = Inr qs'
           \<and> dict_get (quantized_weights qs') key = Some q
           \<and> dict_get (quantized_weights qs') (key @ ''.scale'') = Some s
           \<and> dict_get (quantized_weights qs') (key @ ''.zero_point'') = Some z"
  using assms by (simp add: quantize_entry_def Let_def dict_get_set)









text \<open>
  Claim C6. For a quantizable tensor whose maximum equals its minimum the scale is 0,
  the division of every element is by zero and yields NaN, and nothing guards it: the
  iteration completes and stores the tensor with a scale of 0.
\<close>

theorem constant_tensor_divides_by_zero:
  assumes "quantizable weight"
    and "mx_min weight = Inr weight_min" and "mx_max weight = Inr weight_max"
    and "weight_max = weight_min"
  shows "scale_of weight_min weight_max = 0
       \<and> map (quantized_float weight_min (scale_of weight_min weight_max)) (elems weight)
           = replicate (length (elems weight)) NaN
       \<and> elems weight \<noteq> []
       \<and> (\<exists>qs' q. fst (quantize_entry nonfinite key weight qs world) = Inr qs'
             \<and> dict_get (quantized_weights qs') key = Some q
             \<and> elems q = replicate (length (elems weight)) (real_of_int (sint (nonfinite NaN)))
             \<and> dict_get (quantized_weights qs') (key @ ''.scale'') = Some (scalar (dtype weight) 0))"
proof -
  have ne: "elems weight \<noteq> []"
    using assms(2) by (simp add: mx_min_Inr)
  have all: "w = weight_min" if "w \<in> set (elems weight)" for w
  proof -
    have "weight_min \<le> w" "w \<le> weight_max"
      using assms(2,3) that by (auto simp: mx_min_Inr mx_max_Inr)
    then show ?thesis
      using assms(4) by simp
  qed
  have s0: "scale_of weight_min weight_max = 0"
    using assms(4) by (simp add: scale_of_def)
  have qf: "quantized_float weight_min 0 w = NaN" if "w \<in> set (elems weight)" for w
    using all [OF that] by (simp add: quantized_float_def fdiv_def)
  have qfs: "map (quantized_float weight_min 0) (elems weight) = replicate (length (elems weight)) NaN"
    using qf by (simp add: map_replicate_const [symmetric] cong: map_cong)
  have qe: "quantize_elem nonfinite weight_min 0 w = nonfinite NaN" if "w \<in> set (elems weight)" for w
    using qf [OF that] by (simp add: quantize_elem_def shifted_def)
  have "map (\<lambda>w. real_of_int (sint (quantize_elem nonfinite weight_min 0 w))) (elems weight)
          = replicate (length (elems weight)) (real_of_int (sint (nonfinite NaN)))"
    using qe by (simp only: map_replicate_const [symmetric] cong: map_cong)
  then have "quantize_tensor nonfinite weight
      = Inr (\<lparr>dtype = Int8, shape = shape weight,
               elems = replicate (length (elems weight)) (real_of_int (sint (nonfinite NaN)))\<rparr>,
             scalar (dtype weight) 0, scalar (dtype weight) weight_min)"
    using assms(2,3) s0 by (simp only: quantize_tensor_def Let_def sum.case)
  from quantize_entry_quantizable [OF assms(1) this, of key qs world]
  show ?thesis
    using s0 qfs ne by auto
qed

text \<open>
  Claim C6, witness: a 2 by 3 tensor filled with 1/2.
\<close>

theorem constant_tensor_divides_by_zero_witness:
  "quantizable constant_weight \<and> mx_min constant_weight = Inr (1 / 2)
     \<and> mx_max constant_weight = Inr (1 / 2)
     \<and> scale_of (1 / 2) (1 / 2) = 0
     \<and> map (quantized_float (1 / 2) 0) (elems constant_weight) = [NaN, NaN, NaN, NaN, NaN, NaN]
     \<and> (\<exists>qs'. fst (quantize_entry (\<lambda>v. 0) ''w'' constant_weight empty_qstate empty_world) = Inr qs'
           \<and> dict_get (quantized_weights qs') ''w.scale'' = Some (scalar Float16 0))"
proof -
  have facts: "quantizable constant_weight" "mx_min constant_weight = Inr (1 / 2)"
      "mx_max constant_weight = Inr (1 / 2)"
    by (simp_all add: constant_weight_def quantizable_def mx_min_def mx_max_def)
  have eq: "(1 / 2 :: real) = 1 / 2" by simp
  show ?thesis
    using constant_tensor_divides_by_zero [OF facts eq, of "\<lambda>v. 0" "''w''" empty_qstate empty_world]
      facts
    by (auto simp: constant_weight_def)
qed

lemma emit_fields [simp]:
  "files (emit e w) = files w" "st_size (emit e w) = st_size w"
  "save_fault (emit e w) = save_fault w" "trace (emit e w) = trace w @ [e]"
  by (simp_all add: emit_def)

lemma py_print_fields [simp]:
  "files (py_print m w) = files w" "st_size (py_print m w) = st_size w"
  "save_fault (py_print m w) = save_fault w" "trace (py_print m w) = trace w @ [Print m]"
  by (simp_all add: py_print_def)

lemma path_exists_py_print [simp]: "path_exists (py_print m w) p = path_exists w p"
  by (simp add: path_exists_def)

subsection \<open>Loading\<close>

lemma load_items_other:
  "k \<notin> fst ` set items \<Longrightarrow> dict_get (fst (load_items items st)) k = dict_get (fst st) k"
  by (induction items st rule: load_items.induct) (auto simp: dict_get_set)

lemma load_items_last:
  "map_of items k = Some t \<Longrightarrow> distinct (map fst items)
     \<Longrightarrow> dict_get (fst (load_items items st)) k = Some t"
proof (induction items st rule: load_items.induct)
  case (1 st)
  then show ?case by simp
next
  case (2 key t' rest all_weights total_size)
  show ?case
  proof (cases "key = k")
    case True
    then have "k \<notin> fst ` set rest" and "t' = t"
      using "2.prems" by auto
    then show ?thesis
      using True by (simp add: load_items_other dict_get_set)
  next
    case False
    then show ?thesis
      using "2.prems" "2.IH" by simp
  qed
qed

lemma mx_load_Safetensors:
  "files w p = Some (Safetensors d) \<Longrightarrow> mx_load p w = (Inr d, emit (Load p) w)"
  by (simp add: mx_load_def)

text \<open>
  Claim C9. The two shard files are loaded in their fixed order, and a name present in
  both ends up holding the tensor of the second file.
\<close>

theorem last_shard_wins:
  assumes "files w (path_join model_dir (model_files ! 0)) = Some (Safetensors shard1)"
    and "files w (path_join model_dir (model_files ! 1)) = Some (Safetensors shard2)"
    and "distinct (map fst shard2)"
    and "map_of shard1 k = Some t1" and "map_of shard2 k = Some t2"
  shows "\<exists>all_weights total_size w'.
           load_files model_files ([], 0) w = (Inr (all_weights, total_size), w')
         \<and> dict_get all_weights k = Some t2
         \<and> (all_weights, total_size) = load_items shard2 (load_items shard1 ([], 0))
         \<and> trace w' = trace w @
              [Print (MsgLoading (model_files ! 0)), Load (path_join model_dir (model_files ! 0)),
               Print (MsgLoading (model_files ! 1)), Load (path_join model_dir (model_files ! 1))]"
proof -
  let ?st = "load_items shard2 (load_items shard1 ([], 0))"
  have "dict_get (fst ?st) k = Some t2"
    using assms(5,3) by (rule load_items_last)
  moreover have "load_files model_files ([], 0) w
      = (Inr ?st, emit (Load (path_join model_dir (model_files ! 1)))
                    (py_print (MsgLoading (model_files ! 1))
                      (emit (Load (path_join model_dir (model_files ! 0)))
                        (py_print (MsgLoading (model_files ! 0)) w))))"
    using assms(1,2) by (simp add: model_files_def mx_load_Safetensors)
  ultimately show ?thesis
    by (cases ?st) auto
qed

lemma appends_refl [simp]: "appends w w"
  by (auto simp: appends_def intro: exI [of _ "[]"])

lemma appends_trans: "appends w w' \<Longrightarrow> appends w' w'' \<Longrightarrow> appends w w''"
proof -
  assume "appends w w'" and "appends w' w''"
  then obtain es es' where "w' = w\<lparr>trace := trace w @ es\<rparr>" "\<forall>p. Save p \<notin> set es"
      "w'' = w'\<lparr>trace := trace w' @ es'\<rparr>" "\<forall>p. Save p \<notin> set es'"
    by (auto simp: appends_def)
  then have "w'' = w\<lparr>trace := trace w @ (es @ es')\<rparr>" "\<forall>p. Save p \<notin> set (es @ es')"
    by auto
  then show ?thesis
    unfolding appends_def by blast
qed

lemma appends_py_print [simp]: "appends w (py_print m w)"
  unfolding appends_def by (intro exI [of _ "[Print m]"]) (simp add: py_print_def emit_def)

lemma appends_Load [simp]: "appends w (emit (Load p) w)"
  unfolding appends_def by (intro exI [of _ "[Load p]"]) (simp add: emit_def)

lemma appends_print_after: "appends w w' \<Longrightarrow> appends w (py_print m w')"
  by (erule appends_trans) simp

lemma appends_fields:
  assumes "appends w w'"
  shows "files w' = files w" "save_fault w' = save_fault w" "st_size w' = st_size w"
  using assms by (auto simp: appends_def)

lemma appends_no_save:
  assumes "appends w w'" and "Save p \<notin> set (trace w)"
  shows "Save p \<notin> set (trace w')"
  using assms by (auto simp: appends_def)

lemma check_files_appends: "check_files fs w = (b, w') \<Longrightarrow> appends w w'"
  by (induction fs) (auto simp: Let_def split: if_splits)

lemma mx_load_appends: "mx_load p w = (r, w') \<Longrightarrow> appends w w'"
  by (auto simp: mx_load_def split: option.splits stored.splits)

lemma load_files_appends: "load_files fs st w = (r, w') \<Longrightarrow> appends w w'"
proof (induction fs arbitrary: st w)
  case Nil
  then show ?case by simp
next
  case (Cons f fs)
  let ?w1 = "py_print (MsgLoading f) w"
  obtain r1 w2 where l: "mx_load (path_join model_dir f) ?w1 = (r1, w2)"
    by (cases "mx_load (path_join model_dir f) ?w1")
  have a: "appends w w2"
    using mx_load_appends [OF l] appends_py_print [of w "MsgLoading f"] appends_trans by blast
  show ?case
  proof (cases r1)
    case (Inl e)
    then show ?thesis
      using Cons.prems l a by simp
  next
    case (Inr weights)
    then have "load_files fs (load_items weights st) w2 = (r, w')"
      using Cons.prems l by simp
    then show ?thesis
      using Cons.IH a appends_trans by blast
  qed
qed

lemma quantize_entry_appends: "quantize_entry nonfinite key weight qs w = (r, w') \<Longrightarrow> appends w w'"
  by (auto simp: quantize_entry_def Let_def split: if_splits sum.splits prod.splits)

lemma quantize_loop_appends: "quantize_loop nonfinite items qs w = (r, w') \<Longrightarrow> appends w w'"
proof (induction items arbitrary: qs w)
  case Nil
  then show ?case by simp
next
  case (Cons kv items)
  obtain key weight where kv: "kv = (key, weight)"
    by (cases kv)
  obtain r1 w1 where e: "quantize_entry nonfinite key weight qs w = (r1, w1)"
    by (cases "quantize_entry nonfinite key weight qs w")
  show ?case
  proof (cases r1)
    case (Inl x)
    then show ?thesis
      using Cons.prems kv e quantize_entry_appends [OF e] by simp
  next
    case (Inr qs1)
    then have "quantize_loop nonfinite items qs1 w1 = (r, w')"
      using Cons.prems kv e by simp
    then show ?thesis
      using Cons.IH quantize_entry_appends [OF e] appends_trans by blast
  qed
qed

lemma quantize_stage_appends:
  assumes "quantize_stage nonfinite all_weights total_size w = (r, w')"
  shows "appends w w'"
proof -
  let ?w3 = "py_print (MsgDimensions (shape_counts all_weights))
               (py_print (MsgDataTypes (dtype_counts all_weights)) (py_print MsgQuantizing w))"
  obtain r4 w4 where l: "quantize_loop nonfinite all_weights
      \<lparr>quantized_weights = [], quantized_size = 0\<rparr> ?w3 = (r4, w4)"
    by (cases "quantize_loop nonfinite all_weights \<lparr>quantized_weights = [], quantized_size = 0\<rparr> ?w3")
  have "appends w ?w3"
    by (intro appends_print_after) simp
  then have a: "appends w w4"
    using quantize_loop_appends [OF l] appends_trans by blast
  show ?thesis
  proof (cases r4)
    case (Inl e)
    then show ?thesis
      using assms l a by (simp add: quantize_stage_def)
  next
    case (Inr qs)
    then show ?thesis
      using assms l a
      by (auto simp: quantize_stage_def Let_def split: if_splits intro!: appends_print_after)
  qed
qed

lemma save_step_never_raises: "\<exists>b. fst (save_step qw total_size w) = Inr b"
  by (auto simp: save_step_def Let_def split: prod.splits sum.splits)

lemma save_step_fault:
  assumes "save_fault w = Some (cause, residue)"
  shows "save_step qw total_size w =
           (Inr False,
            py_print (MsgSaveError (SaveFailure cause))
              (emit (Save output_path) (w\<lparr>files := (files w)(output_path := residue)\<rparr>)))"
  using assms by (simp add: save_step_def mx_save_safetensors_def)

lemma check_files_missing:
  assumes "file \<in> set fs" and "\<not> path_exists w (path_join model_dir file)"
  shows "\<exists>p. p \<in> path_join model_dir ` set fs \<and> \<not> path_exists w p
           \<and> (\<forall>w0. files w0 = files w \<longrightarrow> check_files fs w0 = (False, py_print (MsgNotFound p) w0))"
  using assms
proof (induction fs)
  case Nil
  then show ?case by simp
next
  case (Cons f fs)
  show ?case
  proof (cases "path_exists w (path_join model_dir f)")
    case True
    then have "file \<in> set fs"
      using Cons.prems by auto
    from Cons.IH [OF this Cons.prems(2)] obtain p where
      p: "p \<in> path_join model_dir ` set fs" "\<not> path_exists w p"
        "\<forall>w0. files w0 = files w \<longrightarrow> check_files fs w0 = (False, py_print (MsgNotFound p) w0)"
      by blast
    have "check_files (f # fs) w0 = (False, py_print (MsgNotFound p) w0)" if "files w0 = files w" for w0
      using that True p(3) by (auto simp: path_exists_def Let_def)
    then show ?thesis
      using p(1,2) by auto
  next
    case False
    have "check_files (f # fs) w0 = (False, py_print (MsgNotFound (path_join model_dir f)) w0)"
      if "files w0 = files w" for w0
      using that False by (simp add: path_exists_def Let_def)
    then show ?thesis
      using False by auto
  qed
qed

text \<open>
  Claim C5. If one of the two shard files is missing, the quantizer prints the path of
  a missing file and returns \<open>False\<close>; the world changes in its trace alone, which
  holds no load and no save, and \<^verbatim>\<open>main\<close> exits with status 1.
\<close>

theorem missing_shard_aborts:
  assumes "file \<in> set model_files" and "\<not> path_exists w (path_join model_dir file)"
  shows "\<exists>p. p \<in> path_join model_dir ` set model_files \<and> \<not> path_exists w p
           \<and> quantize_openelm_model nonfinite w =
               (Inr False,
                w\<lparr>trace := trace w @
                   [Print MsgStart, Print (MsgModelDir model_dir), Print (MsgNotFound p)]\<rparr>)
           \<and> main nonfinite w =
               (Exit 1,
                w\<lparr>trace := trace w @
                   [Print MsgBanner, Print MsgRule, Print MsgStart, Print (MsgModelDir model_dir),
                    Print (MsgNotFound p), Print MsgFailed]\<rparr>)
           \<and> exit_status (fst (main nonfinite w)) = 1"
proof -
  from check_files_missing [OF assms] obtain p where
    p: "p \<in> path_join model_dir ` set model_files" "\<not> path_exists w p"
      "\<And>w0. files w0 = files w \<Longrightarrow> check_files model_files w0 = (False, py_print (MsgNotFound p) w0)"
    by blast
  have run: "quantize_openelm_model nonfinite w0 =
      (Inr False, py_print (MsgNotFound p) (py_print (MsgModelDir model_dir) (py_print MsgStart w0)))"
    if "files w0 = files w" for w0
    using p(3) [of "py_print (MsgModelDir model_dir) (py_print MsgStart w0)"] that
    by (simp add: quantize_openelm_model_def)
  have "quantize_openelm_model nonfinite w =
      (Inr False,
       w\<lparr>trace := trace w @ [Print MsgStart, Print (MsgModelDir model_dir), Print (MsgNotFound p)]\<rparr>)"
    by (simp add: run py_print_def emit_def)
  moreover have "main nonfinite w =
      (Exit 1,
       w\<lparr>trace := trace w @
          [Print MsgBanner, Print MsgRule, Print MsgStart, Print (MsgModelDir model_dir),
           Print (MsgNotFound p), Print MsgFailed]\<rparr>)"
    by (simp add: main_def run py_print_def emit_def)
  ultimately show ?thesis
    using p(1,2) by (intro exI [of _ p]) simp
qed

lemma quantize_openelm_model_save_fault:
  assumes "save_fault w = Some (cause, residue)"
    and "quantize_openelm_model nonfinite w = (r, w')"
    and "Save output_path \<in> set (trace w')" and "Save output_path \<notin> set (trace w)"
  shows "r = Inr False \<and> last (trace w') = Print (MsgSaveError (SaveFailure cause))"
proof -
  let ?w1 = "py_print (MsgModelDir model_dir) (py_print MsgStart w)"
  have a1: "appends w ?w1"
    by (intro appends_print_after) simp
  obtain b w2 where c: "check_files model_files ?w1 = (b, w2)"
    by (cases "check_files model_files ?w1")
  have a2: "appends w w2"
    using appends_trans [OF a1 check_files_appends [OF c]] .
  show ?thesis
  proof (cases b)
    case False
    then have "w' = w2"
      using assms(2) c by (simp add: quantize_openelm_model_def)
    then show ?thesis
      using appends_no_save [OF a2 assms(4)] assms(3) by simp
  next
    case True
    obtain r3 w3 where l: "load_files model_files ([], 0) w2 = (r3, w3)"
      by (cases "load_files model_files ([], 0) w2")
    have a3: "appends w w3"
      using appends_trans [OF a2 load_files_appends [OF l]] .
    show ?thesis
    proof (cases r3)
      case (Inl e)
      then have "w' = w3"
        using assms(2) c True l by (simp add: quantize_openelm_model_def)
      then show ?thesis
        using appends_no_save [OF a3 assms(4)] assms(3) by simp
    next
      case (Inr st)
      obtain all_weights total_size where st: "st = (all_weights, total_size)"
        by (cases st)
      let ?w4 = "py_print (MsgLoaded (length all_weights) total_size) w3"
      obtain r5 w5 where q: "quantize_stage nonfinite all_weights total_size ?w4 = (r5, w5)"
        by (cases "quantize_stage nonfinite all_weights total_size ?w4")
      have a5: "appends w w5"
        using appends_trans [OF appends_print_after [OF a3] quantize_stage_appends [OF q]] .
      show ?thesis
      proof (cases r5)
        case (Inl e)
        then have "w' = w5"
          using assms(2) c True l Inr st q by (simp add: quantize_openelm_model_def)
        then show ?thesis
          using appends_no_save [OF a5 assms(4)] assms(3) by simp
      next
        case (Inr qw)
        have "save_fault w5 = Some (cause, residue)"
          using appends_fields(2) [OF a5] assms(1) by simp
        from save_step_fault [OF this, of qw total_size]
        have "quantize_openelm_model nonfinite w =
            (Inr False,
             py_print (MsgSaveError (SaveFailure cause))
               (emit (Save output_path) (w5\<lparr>files := (files w5)(output_path := residue)\<rparr>)))"
          using c True l \<open>r3 = Inr st\<close> st q Inr by (simp add: quantize_openelm_model_def)
        then show ?thesis
          using assms(2) by auto
      qed
    qed
  qed
qed

text \<open>
  Claim C8. The guarded save never lets an exception out. When the save is reached and
  fails, the quantizer prints the cause last and returns \<open>False\<close>, and \<^verbatim>\<open>main\<close>
  exits with status 1.
\<close>

theorem save_failure_caught:
  assumes "save_fault w = Some (cause, residue)"
    and "Save output_path \<in> set (trace (snd (main nonfinite w)))"
    and "Save output_path \<notin> set (trace w)"
  shows "\<exists>w2. quantize_openelm_model nonfinite (py_print MsgRule (py_print MsgBanner w))
                = (Inr False, w2)
           \<and> last (trace w2) = Print (MsgSaveError (SaveFailure cause))
           \<and> main nonfinite w = (Exit 1, py_print MsgFailed w2)
           \<and> exit_status (fst (main nonfinite w)) = 1
           \<and> (\<exists>b. fst (save_step qw total_size w) = Inr b)"
proof -
  let ?w1 = "py_print MsgRule (py_print MsgBanner w)"
  obtain r w2 where run: "quantize_openelm_model nonfinite ?w1 = (r, w2)"
    by (cases "quantize_openelm_model nonfinite ?w1")
  have "Save output_path \<in> set (trace w2)"
    using assms(2) run by (auto simp: main_def split: sum.splits bool.splits if_splits)
  moreover have "save_fault ?w1 = Some (cause, residue)" "Save output_path \<notin> set (trace ?w1)"
    using assms(1,3) by simp_all
  ultimately have "r = Inr False \<and> last (trace w2) = Print (MsgSaveError (SaveFailure cause))"
    using quantize_openelm_model_save_fault run by blast
  then show ?thesis
    using run save_step_never_raises [of qw total_size w] by (simp add: main_def)
qed

text \<open>
  Claim C5, witness: with the second shard file missing, the quantizer reports its
  path and \<^verbatim>\<open>main\<close> exits with status 1.
\<close>

theorem missing_shard_aborts_witness:
  "model_files ! 1 \<in> set model_files
     \<and> \<not> path_exists one_shard (path_join model_dir (model_files ! 1))
     \<and> quantize_openelm_model (\<lambda>v. 0) one_shard =
          (Inr False,
           one_shard\<lparr>trace := trace one_shard @
              [Print MsgStart, Print (MsgModelDir model_dir),
               Print (MsgNotFound (path_join model_dir (model_files ! 1)))]\<rparr>)
     \<and> exit_status (fst (main (\<lambda>v. 0) one_shard)) = 1"
proof -
  have h1: "model_files ! 1 \<in> set model_files"
    by (simp add: model_files_def)
  have h2: "\<not> path_exists one_shard (path_join model_dir (model_files ! 1))"
    by (simp add: path_exists_def one_shard_def path_join_def model_files_def)
  have ex: "path_exists one_shard (path_join model_dir (model_files ! 0))"
    by (simp add: path_exists_def one_shard_def)
  obtain p where p: "p \<in> path_join model_dir ` set model_files" "\<not> path_exists one_shard p"
    and run: "quantize_openelm_model (\<lambda>v. 0) one_shard =
          (Inr False,
           one_shard\<lparr>trace := trace one_shard @
              [Print MsgStart, Print (MsgModelDir model_dir), Print (MsgNotFound p)]\<rparr>)"
    and ex1: "exit_status (fst (main (\<lambda>v. 0) one_shard)) = 1"
    using missing_shard_aborts [OF h1 h2, of "\<lambda>v. 0"] by blast
  have "p = path_join model_dir (model_files ! 1)"
    using p ex by (auto simp: model_files_def)
  then show ?thesis
    using h1 h2 run ex1 by simp
qed

text \<open>
  Claim C8, witness: both shards load, the save fails for lack of space; the cause is
  printed last and \<^verbatim>\<open>main\<close> exits with status 1.
\<close>

theorem save_failure_caught_witness:
  "save_fault failing_disk = Some (''No space left on device'', None)
     \<and> Save output_path \<in> set (trace (snd (main (\<lambda>v. 0) failing_disk)))
     \<and> Save output_path \<notin> set (trace failing_disk)
     \<and> (\<exists>w2. quantize_openelm_model (\<lambda>v. 0) (py_print MsgRule (py_print MsgBanner failing_disk))
                = (Inr False, w2)
           \<and> last (trace w2) = Print (MsgSaveError (SaveFailure ''No space left on device''))
           \<and> main (\<lambda>v. 0) failing_disk = (Exit 1, py_print MsgFailed w2))
     \<and> exit_status (fst (main (\<lambda>v. 0) failing_disk)) = 1"
proof -
  have h1: "save_fault failing_disk = Some (''No space left on device'', None)"
    by (simp add: failing_disk_def)
  have h2: "Save output_path \<in> set (trace (snd (main (\<lambda>v. 0) failing_disk)))"
    by code_simp
  have h3: "Save output_path \<notin> set (trace failing_disk)"
    by (simp add: failing_disk_def two_shards_def)
  show ?thesis
    using save_failure_caught [OF h1 h2 h3, of "[]" 0] h1 h2 h3 by blast
qed

text \<open>
  Claim C9, witness: the name \<open>a\<close> is in both shards, and the loaded mapping holds the
  tensor of the second.
\<close>

theorem last_shard_wins_witness:
  "files two_shards (path_join model_dir (model_files ! 0))
       = Some (Safetensors [(''a'', bias), (''b'', bias)])
     \<and> files two_shards (path_join model_dir (model_files ! 1))
       = Some (Safetensors [(''a'', example_weight)])
     \<and> distinct (map fst [(''a'', example_weight)])
     \<and> map_of [(''a'', bias), (''b'', bias)] ''a'' = Some bias
     \<and> map_of [(''a'', example_weight)] ''a'' = Some example_weight
     \<and> (\<exists>all_weights total_size w'.
           load_files model_files ([], 0) two_shards = (Inr (all_weights, total_size), w')
         \<and> dict_get all_weights ''a'' = Some example_weight)"
proof -
  have h1: "files two_shards (path_join model_dir (model_files ! 0))
       = Some (Safetensors [(''a'', bias), (''b'', bias)])"
    by (simp add: two_shards_def path_join_def model_files_def)
  have h2: "files two_shards (path_join model_dir (model_files ! 1))
       = Some (Safetensors [(''a'', example_weight)])"
    by (simp add: two_shards_def)
  have h3: "distinct (map fst [(''a'', example_weight)])"
    by simp
  have h4: "map_of [(''a'', bias), (''b'', bias)] ''a'' = Some bias"
    by simp
  have h5: "map_of [(''a'', example_weight)] ''a'' = Some example_weight"
    by simp
  show ?thesis
    using last_shard_wins [OF h1 h2 h3 h4 h5] h1 h2 by auto
qed

text \<open>
  Claim C3, the failing run. The first shard holds the rank-1 tensor \<open>a.scale\<close> with
  elements 3 and 4, which is not quantizable; the second holds the quantizable tensor
  \<open>a\<close>. The run succeeds, and the file written holds under \<open>a.scale\<close> the scale of
  \<open>a\<close>, the scalar 1, not the input tensor.
\<close>

theorem passthrough_overwritten_by_sidecar:
  "\<not> quantizable bias
     \<and> bias = \<lparr>dtype = Float32, shape = [2], elems = [3, 4]\<rparr>
     \<and> fst (main (\<lambda>v. 0) sidecar_first) = Returned
     \<and> written (snd (main (\<lambda>v. 0) sidecar_first)) ''a.scale''
         = Some \<lparr>dtype = Float32, shape = [], elems = [1]\<rparr>"
  by code_simp

text \<open>
  Claim C4, the failing run. The first shard holds the quantizable tensor \<open>a\<close>; the
  second holds the rank-1 tensor \<open>a.scale\<close>. The run succeeds, \<open>a\<close> is written as an
  8-bit tensor, and the entry \<open>a.scale\<close> of the file is the rank-1 input tensor, not a
  scalar.
\<close>

theorem sidecar_overwritten_by_passthrough:
  "quantizable example_weight
     \<and> fst (main (\<lambda>v. 0) sidecar_second) = Returned
     \<and> map_option dtype (written (snd (main (\<lambda>v. 0) sidecar_second)) ''a'') = Some Int8
     \<and> written (snd (main (\<lambda>v. 0) sidecar_second)) ''a.scale''
         = Some \<lparr>dtype = Float32, shape = [2], elems = [3, 4]\<rparr>
     \<and> map_option shape (written (snd (main (\<lambda>v. 0) sidecar_second)) ''a.scale'') = Some [2]"
  by code_simp

lemma quantize_entry_untouched:
  assumes "quantize_entry nonfinite key weight qs w = (Inr qs', w')"
    and "k \<notin> set (written_keys key weight)"
  shows "dict_get (quantized_weights qs') k = dict_get (quantized_weights qs) k"
  using assms
  by (auto simp: quantize_entry_def written_keys_def Let_def dict_get_set
           split: if_splits sum.splits prod.splits)

lemma quantize_loop_untouched:
  assumes "quantize_loop nonfinite items qs w = (Inr qs', w')"
    and "\<forall>(key, weight) \<in> set items. k \<notin> set (written_keys key weight)"
  shows "dict_get (quantized_weights qs') k = dict_get (quantized_weights qs) k"
  using assms
proof (induction items arbitrary: qs w)
  case Nil
  then show ?case by simp
next
  case (Cons kv items)
  obtain key weight where kv: "kv = (key, weight)"
    by (cases kv)
  obtain r1 w1 where e: "quantize_entry nonfinite key weight qs w = (r1, w1)"
    by (cases "quantize_entry nonfinite key weight qs w")
  obtain qs1 where r1: "r1 = Inr qs1"
    using Cons.prems(1) kv e by (cases r1) auto
  have "dict_get (quantized_weights qs1) k = dict_get (quantized_weights qs) k"
    using quantize_entry_untouched [of nonfinite key weight qs w qs1 w1 k] e r1 Cons.prems(2) kv
    by auto
  moreover have "dict_get (quantized_weights qs') k = dict_get (quantized_weights qs1) k"
    using Cons.IH [of qs1 w1] Cons.prems kv e r1 by auto
  ultimately show ?case
    by simp
qed

lemma quantize_loop_append:
  "quantize_loop nonfinite (xs @ ys) qs w =
     (case quantize_loop nonfinite xs qs w of
        (Inl e, w1) \<Rightarrow> (Inl e, w1)
      | (Inr qs1, w1) \<Rightarrow> quantize_loop nonfinite ys qs1 w1)"
  by (induction xs arbitrary: qs w) (auto split: prod.splits sum.splits)

text \<open>
  Without a clash of names the tensor that is not quantized is in the output as it was
  read: no other tensor has its name, and it is not the side-car name of a quantized one.
\<close>

lemma passthrough_kept:
  assumes "quantize_loop nonfinite items qs w = (Inr qs', w')"
    and "distinct (map fst items)"
    and "(k, t) \<in> set items" and "\<not> quantizable t"
    and "\<forall>(key, weight) \<in> set items.
           quantizable weight \<longrightarrow> k \<noteq> key @ ''.scale'' \<and> k \<noteq> key @ ''.zero_point''"
  shows "dict_get (quantized_weights qs') k = Some t"
proof -
  obtain xs ys where split: "items = xs @ (k, t) # ys"
    using assms(3) by (auto simp: in_set_conv_decomp)
  obtain qs1 w1 where pre: "quantize_loop nonfinite xs qs w = (Inr qs1, w1)"
    and rest: "quantize_loop nonfinite ((k, t) # ys) qs1 w1 = (Inr qs', w')"
    using assms(1) unfolding split quantize_loop_append
    by (auto split: prod.splits sum.splits)
  obtain qs2 w2 where step: "quantize_entry nonfinite k t qs1 w1 = (Inr qs2, w2)"
    and post: "quantize_loop nonfinite ys qs2 w2 = (Inr qs', w')"
    using rest by (auto split: prod.splits sum.splits)
  have "dict_get (quantized_weights qs2) k = Some t"
    using step assms(4) by (auto simp: quantize_entry_def dict_get_set)
  moreover have "\<forall>(key, weight) \<in> set ys. k \<notin> set (written_keys key weight)"
  proof (clarify)
    fix key weight
    assume mem: "(key, weight) \<in> set ys" and "k \<in> set (written_keys key weight)"
    have "key \<in> fst ` set ys"
      using mem by force
    then have "key \<noteq> k"
      using assms(2) unfolding split by auto
    moreover have "quantizable weight \<longrightarrow> k \<noteq> key @ ''.scale'' \<and> k \<noteq> key @ ''.zero_point''"
      using assms(5) mem unfolding split by auto
    ultimately show False
      using \<open>k \<in> set (written_keys key weight)\<close>
      by (auto simp: written_keys_def split: if_splits)
  qed
  ultimately show ?thesis
    using quantize_loop_untouched [OF post] by simp
qed

text \<open>
  Without a clash of names the three entries of a quantized tensor are in the output:
  no later iteration assigns to its name or to its two side-car names.
\<close>

lemma sidecars_kept:
  assumes "quantize_loop nonfinite items qs w = (Inr qs', w')"
    and "distinct (map fst items)"
    and "(k, t) \<in> set items" and "quantizable t"
    and "\<forall>(key, weight) \<in> set items. key \<noteq> k \<longrightarrow>
           set (written_keys key weight) \<inter> {k, k @ ''.scale'', k @ ''.zero_point''} = {}"
  shows "\<exists>q s z. quantize_tensor nonfinite t = Inr (q, s, z)
           \<and> dict_get (quantized_weights qs') k = Some q
           \<and> dict_get (quantized_weights qs') (k @ ''.scale'') = Some s
           \<and> dict_get (quantized_weights qs') (k @ ''.zero_point'') = Some z
           \<and> dtype q = Int8 \<and> shape s = [] \<and> shape z = []"
proof -
  obtain xs ys where split: "items = xs @ (k, t) # ys"
    using assms(3) by (auto simp: in_set_conv_decomp)
  obtain qs1 w1 where pre: "quantize_loop nonfinite xs qs w = (Inr qs1, w1)"
    and rest: "quantize_loop nonfinite ((k, t) # ys) qs1 w1 = (Inr qs', w')"
    using assms(1) unfolding split quantize_loop_append
    by (auto split: prod.splits sum.splits)
  obtain qs2 w2 where step: "quantize_entry nonfinite k t qs1 w1 = (Inr qs2, w2)"
    and post: "quantize_loop nonfinite ys qs2 w2 = (Inr qs', w')"
    using rest by (auto split: prod.splits sum.splits)
  obtain q s z where qt: "quantize_tensor nonfinite t = Inr (q, s, z)"
    using step assms(4) by (auto simp: quantize_entry_def split: sum.splits)
  have forms: "dtype q = Int8" "shape s = []" "shape z = []"
    using qt by (auto simp: quantize_tensor_def Let_def scalar_def split: sum.splits)
  from quantize_entry_quantizable [OF assms(4) qt, of k qs1 w1]
  have now: "dict_get (quantized_weights qs2) k = Some q"
      "dict_get (quantized_weights qs2) (k @ ''.scale'') = Some s"
      "dict_get (quantized_weights qs2) (k @ ''.zero_point'') = Some z"
    using step by auto
  have keep: "\<forall>(key, weight) \<in> set ys. k' \<notin> set (written_keys key weight)"
    if "k' \<in> {k, k @ ''.scale'', k @ ''.zero_point''}" for k'
  proof (clarify)
    fix key weight
    assume mem: "(key, weight) \<in> set ys" and w: "k' \<in> set (written_keys key weight)"
    have "key \<in> fst ` set ys"
      using mem by force
    then have "key \<noteq> k"
      using assms(2) unfolding split by auto
    moreover have "(key, weight) \<in> set items"
      using mem unfolding split by simp
    ultimately have "set (written_keys key weight) \<inter> {k, k @ ''.scale'', k @ ''.zero_point''} = {}"
      using assms(5) by blast
    then show False
      using w that by blast
  qed
  have "dict_get (quantized_weights qs') k' = dict_get (quantized_weights qs2) k'"
    if "k' \<in> {k, k @ ''.scale'', k @ ''.zero_point''}" for k'
    using quantize_loop_untouched [OF post keep [OF that]] .
  then show ?thesis
    using now qt forms by simp
qed

lemma str_in_sublist: "str_in sub s \<longleftrightarrow> sublist sub s"
  by (induction s) (simp_all add: sublist_Cons_right)

lemma matching_set: "set (matching label keys) = category label (set keys)"
  by (auto simp: matching_def category_def str_in_sublist)

lemma matching_sorted:
  assumes "distinct keys"
  shows "sort (matching label keys) = sorted_list_of_set (category label (set keys))"
proof -
  have "distinct (matching label keys)"
    using assms by (simp add: matching_def)
  then have "sort (matching label keys) = sorted_list_of_set (set (matching label keys))"
    by (simp add: sorted_list_of_set_sort_remdups distinct_remdups_id)
  then show ?thesis
    by (simp add: matching_set)
qed

lemma matching_length:
  assumes "distinct keys"
  shows "length (matching label keys) = card (category label (set keys))"
proof -
  have "distinct (matching label keys)"
    using assms by (simp add: matching_def)
  then show ?thesis
    by (simp add: matching_set [symmetric] distinct_card)
qed

text \<open>
  Claim C7, as the code has it. For a weight map with keys \<open>K\<close> the inspector prints a
  header with the number of matching keys for \<open>embed\<close> and \<open>token\<close>, and the header
  \<open>(first 10)\<close> without a number for \<open>norm\<close> and \<open>transformer\<close>; under each header the
  matching keys in sorted order, all of them for \<open>embed\<close> and \<open>token\<close> and the first ten
  for \<open>norm\<close> and \<open>transformer\<close>; and last the number of keys of the map.
\<close>

theorem inspector_listing:
  assumes "index_file env = Some (Parsed (JObj index_data))"
    and "map_of index_data ''weight_map'' = Some (JObj weight_map)"
    and "distinct (map fst weight_map)"
  shows "inspect_weights env =
     (Inr (),
      [''Available weights in the model:'', replicate 50 CHR ''='']
      @ [newline @ ''Embedding weights (''
           @ show_nat (card (category ''embed'' (fst ` set weight_map))) @ ''):'']
      @ map item (sorted_list_of_set (category ''embed'' (fst ` set weight_map)))
      @ [newline @ ''Token weights (''
           @ show_nat (card (category ''token'' (fst ` set weight_map))) @ ''):'']
      @ map item (sorted_list_of_set (category ''token'' (fst ` set weight_map)))
      @ [newline @ ''Norm weights (first 10):'']
      @ map item (take 10 (sorted_list_of_set (category ''norm'' (fst ` set weight_map))))
      @ [newline @ ''Transformer weights (first 10):'']
      @ map item (take 10 (sorted_list_of_set (category ''transformer'' (fst ` set weight_map))))
      @ [newline @ ''Total weights: '' @ show_nat (card (fst ` set weight_map))])"
proof -
  let ?keys = "map fst weight_map"
  have keys: "weight_map_keys (JObj index_data) = Inr ?keys"
    using assms(2) by (simp add: weight_map_keys_def)
  have total: "length ?keys = card (fst ` set weight_map)"
    using assms(3) distinct_card [of ?keys] by simp
  have "index_listing ?keys =
      [newline @ ''Embedding weights (''
           @ show_nat (card (category ''embed'' (set ?keys))) @ ''):'']
      @ map item (sorted_list_of_set (category ''embed'' (set ?keys)))
      @ [newline @ ''Token weights (''
           @ show_nat (card (category ''token'' (set ?keys))) @ ''):'']
      @ map item (sorted_list_of_set (category ''token'' (set ?keys)))
      @ [newline @ ''Norm weights (first 10):'']
      @ map item (take 10 (sorted_list_of_set (category ''norm'' (set ?keys))))
      @ [newline @ ''Transformer weights (first 10):'']
      @ map item (take 10 (sorted_list_of_set (category ''transformer'' (set ?keys))))
      @ [newline @ ''Total weights: '' @ show_nat (length ?keys)]"
    unfolding index_listing_def Let_def
    by (simp only: matching_sorted [OF assms(3)] matching_length [OF assms(3)])
  then show ?thesis
    using assms(1) keys total by (simp add: inspect_weights_def)
qed

text \<open>
  Claim C7, witness: the scenario of the specification, three keys, one each for
  \<open>embed\<close>, \<open>norm\<close> and \<open>transformer\<close>.
\<close>

theorem inspector_listing_witness:
  "index_file (index_of scenario_keys)
       = Some (Parsed (JObj [(''metadata'', JNull),
                             (''weight_map'', JObj (map (\<lambda>k. (k, JStr ''shard'')) scenario_keys))]))
     \<and> map_of [(''metadata'', JNull),
               (''weight_map'', JObj (map (\<lambda>k. (k, JStr ''shard'')) scenario_keys))] ''weight_map''
         = Some (JObj (map (\<lambda>k. (k, JStr ''shard'')) scenario_keys))
     \<and> distinct (map fst (map (\<lambda>k. (k, JStr ''shard'')) scenario_keys))
     \<and> inspect_weights (index_of scenario_keys) =
         (Inr (),
          [''Available weights in the model:'', replicate 50 CHR ''='',
           newline @ ''Embedding weights (1):'', ''  model.embed.weight'',
           newline @ ''Token weights (0):'',
           newline @ ''Norm weights (first 10):'', ''  model.norm.weight'',
           newline @ ''Transformer weights (first 10):'', ''  model.layer.0.transformer.attn.weight'',
           newline @ ''Total weights: 3''])"
proof -
  let ?wm = "map (\<lambda>k. (k, JStr ''shard'')) scenario_keys"
  let ?idx = "[(''metadata'', JNull), (''weight_map'', JObj ?wm)]"
  have h1: "index_file (index_of scenario_keys) = Some (Parsed (JObj ?idx))"
    by (simp add: index_of_def)
  have h2: "map_of ?idx ''weight_map'' = Some (JObj ?wm)"
    by simp
  have h3: "distinct (map fst ?wm)"
    by (simp add: scenario_keys_def)
  have run: "inspect_weights (index_of scenario_keys) =
         (Inr (),
          [''Available weights in the model:'', replicate 50 CHR ''='',
           newline @ ''Embedding weights (1):'', ''  model.embed.weight'',
           newline @ ''Token weights (0):'',
           newline @ ''Norm weights (first 10):'', ''  model.norm.weight'',
           newline @ ''Transformer weights (first 10):'', ''  model.layer.0.transformer.attn.weight'',
           newline @ ''Total weights: 3''])"
    by code_simp
  show ?thesis
    using inspector_listing [OF h1 h2 h3] h1 h2 h3 run by simp
qed

text \<open>
  Claim C7, counterexample to a printed count for every category. A map with eleven
  \<open>norm\<close> keys and a map with ten of them and one other key are printed alike: what
  is printed does not tell the number of \<open>norm\<close> keys.
\<close>

theorem norm_count_not_printed:
  "inspect_weights (index_of eleven_norms) = inspect_weights (index_of ten_norms)
     \<and> length (matching ''norm'' eleven_norms) = 11
     \<and> length (matching ''norm'' ten_norms) = 10
     \<and> snd (inspect_weights (index_of eleven_norms)) ! 4 = newline @ ''Norm weights (first 10):''"
  by code_simp

end
